theory Spec2Isabelle
  imports Complex_Main
begin

section \<open>Insurance quote algorithm: a shallow embedding\<close>

text \<open>
  The development follows \<^verbatim>\<open>src/insurance_quote.py\<close>, the two static tables in
  \<^verbatim>\<open>src/weights/\<close>, the input classes of \<^verbatim>\<open>src/inputs/quote_inputs.py\<close> and
  \<^verbatim>\<open>src/default_checker.py\<close>.

  Numbers. The attributes of the input classes are annotated \<^verbatim>\<open>int\<close> and are
  modelled as \<^typ>\<open>int\<close>. Every quantity the formulas compute is a Python number
  (an \<^verbatim>\<open>int\<close> or a binary64 \<^verbatim>\<open>float\<close>); these are modelled as exact
  \<^typ>\<open>real\<close> numbers: the formulas are the source's, term by term and in the
  source's order, but the rounding of binary64 arithmetic is not part of the model.

  Effects. The only effect of the code is logging. A logger is modelled by the list of
  records it has been handed so far, oldest first; every function that logs takes the
  logger and returns it updated. A raised exception is the \<open>Inl\<close> of a sum.
\<close>

subsection \<open>Exceptions and log records\<close>

datatype py_error = TypeError | KeyError | AttributeError

text \<open>One constructor for each logging call of the source, with the values it formats.\<close>

datatype log_event =
    PolicyWeightInvalidKey
      \<comment> \<open>warning: "Could not extract policy weight due to invalid key"\<close>
  | PolicyAdjustmentFailed py_error
      \<comment> \<open>error: "Failed to calculate policy adjustment", with the exception\<close>
  | DiscountInvalidPolicyType "string option"
      \<comment> \<open>warning: "Invalid policy type '...' for discount calculation."\<close>
  | DiscountKeyNotFound string "string option"
      \<comment> \<open>warning: "Discount key '...' not found for policy type '...'"\<close>
  | DiscountsFailed py_error
      \<comment> \<open>error: "Failed to calculate discounts: ..."\<close>
  | DefaultsObjIsNone
      \<comment> \<open>error: "Cant check defaults for oobj because it is none"\<close>
  | DefaultMinusOne string
      \<comment> \<open>warning: "Warning: <path> is using default value -1"\<close>
  | DefaultNotSet string
      \<comment> \<open>warning: "Warning: <path> is not set"\<close>
  | DefaultListEmpty string
      \<comment> \<open>warning: "Warning: <path> list is empty or not set"\<close>
  | DefaultIsNone string
      \<comment> \<open>warning: "Warning: <path> is None"\<close>
  | QuoteFactors real real real real real real
      \<comment> \<open>info: "bp: .., dr: .., vr: .., lr: .., pa: .., dd: .."\<close>
  | QuoteTotals real real
      \<comment> \<open>info: "Quote: .., Discounted: .."\<close>

type_synonym logger = "log_event list"

definition emit :: "log_event \<Rightarrow> logger \<Rightarrow> logger" where
  "emit e lg = lg @ [e]"

subsection \<open>The static tables\<close>

text \<open>
  \<^verbatim>\<open>src/weights/policy_weights.py\<close> and \<^verbatim>\<open>src/weights/discount_weights.py\<close>.
  A dict literal is kept as the list of its \<open>key: value\<close> items in the order they are
  written, and read with \<^const>\<open>map_of\<close>.
\<close>

definition CoverageType_LIABILITY :: string where
  "CoverageType_LIABILITY = ''liability''"

definition CoverageType_FULL_COVERAGE :: string where
  "CoverageType_FULL_COVERAGE = ''full_coverage''"

definition CoverageType_COLLISION_ONLY :: string where
  "CoverageType_COLLISION_ONLY = ''collision_only''"

definition AddOnKeys_ROADSIDE_ASSISTANCE :: string where
  "AddOnKeys_ROADSIDE_ASSISTANCE = ''roadside_assistance''"

definition AddOnKeys_RENTAL_REIMBURSEMENT :: string where
  "AddOnKeys_RENTAL_REIMBURSEMENT = ''rental_reimbursement''"

definition AddOnKeys_GLASS_COVERAGE :: string where
  "AddOnKeys_GLASS_COVERAGE = ''glass_coverage''"

definition AddOnKeys_GAP_COVERAGE :: string where
  "AddOnKeys_GAP_COVERAGE = ''gap_coverage''"

definition AddOnWeights_ROADSIDE_ASSISTANCE :: real where
  "AddOnWeights_ROADSIDE_ASSISTANCE = 0.15"

definition AddOnWeights_RENTAL_REIMBURSEMENT :: real where
  "AddOnWeights_RENTAL_REIMBURSEMENT = 0.1"

definition AddOnWeights_GLASS_COVERAGE :: real where
  "AddOnWeights_GLASS_COVERAGE = 0.05"

definition AddOnWeights_GAP_COVERAGE :: real where
  "AddOnWeights_GAP_COVERAGE = 0.05"

text \<open>An entry of the policy table: the dict with the keys "weight" and "add_ons".\<close>

record policy_obj =
  weight :: real
  add_ons_map :: "(string \<times> real) list"

definition POLICY_ADD_ON_MAP :: "(string \<times> policy_obj) list" where
  "POLICY_ADD_ON_MAP =
    [(CoverageType_LIABILITY,
        \<lparr>weight = 1.0,
         add_ons_map =
           [(AddOnKeys_ROADSIDE_ASSISTANCE, AddOnWeights_ROADSIDE_ASSISTANCE),
            (AddOnKeys_RENTAL_REIMBURSEMENT, AddOnWeights_RENTAL_REIMBURSEMENT),
            (AddOnKeys_GLASS_COVERAGE, AddOnWeights_GLASS_COVERAGE)]\<rparr>),
     (CoverageType_FULL_COVERAGE,
        \<lparr>weight = 1.5,
         add_ons_map =
           [(AddOnKeys_ROADSIDE_ASSISTANCE, AddOnWeights_ROADSIDE_ASSISTANCE),
            (AddOnKeys_RENTAL_REIMBURSEMENT, AddOnWeights_RENTAL_REIMBURSEMENT),
            (AddOnKeys_GAP_COVERAGE, AddOnWeights_GAP_COVERAGE),
            (AddOnKeys_GLASS_COVERAGE, AddOnWeights_GLASS_COVERAGE)]\<rparr>),
     (CoverageType_COLLISION_ONLY,
        \<lparr>weight = 1.2,
         add_ons_map =
           [(AddOnKeys_RENTAL_REIMBURSEMENT, AddOnWeights_RENTAL_REIMBURSEMENT),
            (AddOnKeys_GLASS_COVERAGE, AddOnWeights_GLASS_COVERAGE)]\<rparr>)]"

definition DiscountKeys_MULTI_POLICY :: string where
  "DiscountKeys_MULTI_POLICY = ''multi_policy''"

definition DiscountKeys_SAFE_DRIVER :: string where
  "DiscountKeys_SAFE_DRIVER = ''safe_driver''"

definition DiscountKeys_LOW_MILEAGE :: string where
  "DiscountKeys_LOW_MILEAGE = ''low_mileage''"

definition DiscountKeys_ANTI_THEFT :: string where
  "DiscountKeys_ANTI_THEFT = ''anti_theft''"

definition DiscountWeights_MULTI_POLICY :: real where
  "DiscountWeights_MULTI_POLICY = 0.1"

definition DiscountWeights_SAFE_DRIVER :: real where
  "DiscountWeights_SAFE_DRIVER = 0.12"

definition DiscountWeights_LOW_MILEAGE :: real where
  "DiscountWeights_LOW_MILEAGE = 0.05"

definition DiscountWeights_ANTI_THEFT :: real where
  "DiscountWeights_ANTI_THEFT = 0.03"

definition POLICY_DISCOUNT_MAP :: "(string \<times> (string \<times> real) list) list" where
  "POLICY_DISCOUNT_MAP =
    [(CoverageType_LIABILITY,
        [(DiscountKeys_MULTI_POLICY, DiscountWeights_MULTI_POLICY),
         (DiscountKeys_LOW_MILEAGE, DiscountWeights_LOW_MILEAGE)]),
     (CoverageType_FULL_COVERAGE,
        [(DiscountKeys_MULTI_POLICY, DiscountWeights_MULTI_POLICY),
         (DiscountKeys_SAFE_DRIVER, DiscountWeights_SAFE_DRIVER),
         (DiscountKeys_ANTI_THEFT, DiscountWeights_ANTI_THEFT)]),
     (CoverageType_COLLISION_ONLY,
        [(DiscountKeys_SAFE_DRIVER, DiscountWeights_SAFE_DRIVER),
         (DiscountKeys_LOW_MILEAGE, DiscountWeights_LOW_MILEAGE)])]"

text \<open>
  \<^verbatim>\<open>d.get(key, None)\<close> on a dict whose keys are strings; the key itself may be
  \<^verbatim>\<open>None\<close> (the default coverage type of \<^verbatim>\<open>PolicyInputs\<close>), which no table has.
\<close>

definition dict_get :: "(string \<times> 'v) list \<Rightarrow> string option \<Rightarrow> 'v option" where
  "dict_get d key = (case key of None \<Rightarrow> None | Some k \<Rightarrow> map_of d k)"

subsection \<open>Risk scorers and aggregators\<close>

definition calc_violation_points :: "real \<Rightarrow> real" where
  "calc_violation_points violations = violations * 0.01 + 0.005"

definition calc_theft_score :: "real \<Rightarrow> real \<Rightarrow> real \<Rightarrow> real" where
  "calc_theft_score vehicle_theft_rate_score location_risk_score anti_theft_feature_score =
     vehicle_theft_rate_score + location_risk_score - anti_theft_feature_score"

definition calc_repair_score :: "real \<Rightarrow> real \<Rightarrow> real \<Rightarrow> real \<Rightarrow> real" where
  "calc_repair_score brand_type_score repair_complex_score parts_score vehicle_age =
     brand_type_score + repair_complex_score + parts_score + (vehicle_age / 2)"

definition calc_saftey_score :: "real \<Rightarrow> real \<Rightarrow> real \<Rightarrow> real" where
  "calc_saftey_score crash_test_ratings active_saftey_features passive_saftey_features =
     crash_test_ratings + active_saftey_features * 2 + passive_saftey_features"

definition calc_accident_points :: "real \<Rightarrow> real \<Rightarrow> real \<Rightarrow> real \<Rightarrow> real \<Rightarrow> real" where
  "calc_accident_points at_fault_major at_fault_minor no_fault hit_n_runs duis =
     (at_fault_major * 3) + (at_fault_minor * 1.5) + (no_fault * 0.5)
       + (hit_n_runs * 4) + (duis * 5)"

definition calc_crime_score :: "real \<Rightarrow> real \<Rightarrow> real" where
  "calc_crime_score crime_level_factor anti_theft_adjuestment =
     crime_level_factor - anti_theft_adjuestment"

definition calc_base_rate :: real where
  "calc_base_rate = 320"

definition calc_driver_risk :: "real \<Rightarrow> real \<Rightarrow> real \<Rightarrow> real \<Rightarrow> real" where
  "calc_driver_risk accident_points violation_points years_clean age =
     (let age_adjustment =
            (if age < 25 then 0.15 else if age < 65 then 0.0 else 0.10);
          years_clean_points = - (years_clean * 0.01)
      in 1 + (0.02 * accident_points) + (0.015 * violation_points)
           - (0.01 * years_clean_points) + age_adjustment)"

definition calc_vehicle_risk :: "real \<Rightarrow> real \<Rightarrow> real \<Rightarrow> real" where
  "calc_vehicle_risk repair_score theft_score saftey_score =
     1 + (repair_score + theft_score - saftey_score) / 100"

definition calc_location_risk :: "real \<Rightarrow> real \<Rightarrow> real" where
  "calc_location_risk accident_points crime_Score =
     1 + (0.02 * accident_points) + (0.025 * crime_Score)"

subsection \<open>Policy resolver\<close>

text \<open>
  The loop \<^verbatim>\<open>for add_on in add_ons: adjustments += policy_obj["add_ons"][add_on]\<close>.
  Subscripting with a missing key raises \<^verbatim>\<open>KeyError\<close>, which leaves the loop; the
  accumulator keeps what was added before. The result is the accumulator and the
  exception that ended the loop, if any.
\<close>

fun add_ons_loop :: "(string \<times> real) list \<Rightarrow> string list \<Rightarrow> real \<Rightarrow> real \<times> py_error option" where
  "add_ons_loop tbl [] adjustments = (adjustments, None)"
| "add_ons_loop tbl (add_on # rest) adjustments =
     (case map_of tbl add_on of
        None \<Rightarrow> (adjustments, Some KeyError)
      | Some w \<Rightarrow> add_ons_loop tbl rest (adjustments + w))"

text \<open>
  \<^verbatim>\<open>calc_policy_adjustment\<close>. The entry is fetched with \<^verbatim>\<open>.get(policy_type, None)\<close>
  and subscripted at once, outside the \<^verbatim>\<open>try\<close>: for a missing coverage type
  that is \<^verbatim>\<open>None["weight"]\<close>, a \<^verbatim>\<open>TypeError\<close>. The \<^verbatim>\<open>try\<close> encloses
  the whole loop; its handler logs the exception and falls through to the
  \<^verbatim>\<open>return\<close>. Iterating over \<^verbatim>\<open>None\<close> raises \<^verbatim>\<open>TypeError\<close> inside the
  \<^verbatim>\<open>try\<close>.
\<close>

definition calc_policy_adjustment ::
    "string option \<Rightarrow> string list option \<Rightarrow> logger \<Rightarrow> (py_error + real) \<times> logger" where
  "calc_policy_adjustment policy_type add_ons lg =
     (case dict_get POLICY_ADD_ON_MAP policy_type of
        None \<Rightarrow> (Inl TypeError, lg)
      | Some policy_obj \<Rightarrow>
          (let policy_weight = weight policy_obj in
           if policy_weight = - 1 then (Inr (- 1), emit PolicyWeightInvalidKey lg)
           else
             (case (case add_ons of
                      None \<Rightarrow> (0, Some TypeError)
                    | Some keys \<Rightarrow> add_ons_loop (add_ons_map policy_obj) keys 0) of
                (adjustments, None) \<Rightarrow> (Inr (policy_weight + adjustments), lg)
              | (adjustments, Some e) \<Rightarrow>
                  (Inr (policy_weight + adjustments), emit (PolicyAdjustmentFailed e) lg))))"

subsection \<open>Discount resolver\<close>

text \<open>
  The loop of \<^verbatim>\<open>calc_discounts\<close>: \<^verbatim>\<open>discount_obj.get(discount)\<close> does not raise;
  a key that is not in the sub-table is logged and the loop goes on.
\<close>

fun discounts_loop ::
    "(string \<times> real) list \<Rightarrow> string option \<Rightarrow> string list \<Rightarrow> real \<Rightarrow> logger \<Rightarrow> real \<times> logger" where
  "discounts_loop discount_obj policy_type [] discount_total lg = (discount_total, lg)"
| "discounts_loop discount_obj policy_type (discount # rest) discount_total lg =
     (case map_of discount_obj discount of
        Some discount_value \<Rightarrow>
          discounts_loop discount_obj policy_type rest (discount_total + discount_value) lg
      | None \<Rightarrow>
          discounts_loop discount_obj policy_type rest discount_total
            (emit (DiscountKeyNotFound discount policy_type) lg))"

definition calc_discounts ::
    "string option \<Rightarrow> string list option \<Rightarrow> logger \<Rightarrow> (py_error + real) \<times> logger" where
  "calc_discounts policy_type discounts lg =
     (case dict_get POLICY_DISCOUNT_MAP policy_type of
        None \<Rightarrow> (Inr 0.0, emit (DiscountInvalidPolicyType policy_type) lg)
      | Some discount_obj \<Rightarrow>
          (case discounts of
             None \<Rightarrow> (Inr 0.0, emit (DiscountsFailed TypeError) lg)
           | Some keys \<Rightarrow>
               (case discounts_loop discount_obj policy_type keys 0.0 lg of
                  (discount_total, lg') \<Rightarrow> (Inr discount_total, lg'))))"

subsection \<open>The request\<close>

text \<open>
  The classes of \<^verbatim>\<open>src/inputs/quote_inputs.py\<close>, with the types of their
  annotations. The coverage type and the two lists default to \<^verbatim>\<open>None\<close>; an
  attribute of \<^verbatim>\<open>QuoteInputs\<close> can be assigned \<^verbatim>\<open>None\<close> as well.
\<close>

record DriverInputs =
  at_fault_major :: int
  at_fault_minor :: int
  no_fault :: int
  hit_n_runs :: int
  duis :: int
  age :: int
  years_clean :: int
  violations :: int

record VehicleInputs =
  brand_type_score :: int
  repair_complexity_score :: int
  parts_score :: int
  vehicle_age :: int
  theft_score :: int
  anti_theft_feature_score :: int
  crash_test_rating :: int
  active_safety_features :: int
  passive_safety_features :: int

record LocationInputs =
  crime_level_factor :: int
  anti_theft_adjustment :: int

record PolicyInputs =
  coverage_type :: "string option"
  add_ons :: "string list option"

record DiscountsInputs =
  discounts :: "string list option"

record QuoteInputs =
  driver_inputs :: "DriverInputs option"
  vehicle_inputs :: "VehicleInputs option"
  location_inputs :: "LocationInputs option"
  policy_inputs :: "PolicyInputs option"
  discount_inputs :: "DiscountsInputs option"

text \<open>\<^verbatim>\<open>DiscountsInputs.get_discounts\<close>: the keys of the flags that are set, in a fixed order.\<close>

definition get_discounts :: "bool \<Rightarrow> bool \<Rightarrow> bool \<Rightarrow> bool \<Rightarrow> string list" where
  "get_discounts multi_policy safe_driver low_mileage anti_theft =
     (if multi_policy then [DiscountKeys_MULTI_POLICY] else [])
     @ (if safe_driver then [DiscountKeys_SAFE_DRIVER] else [])
     @ (if low_mileage then [DiscountKeys_LOW_MILEAGE] else [])
     @ (if anti_theft then [DiscountKeys_ANTI_THEFT] else [])"

subsection \<open>The audit of default values\<close>

text \<open>
  \<^verbatim>\<open>check_defaults\<close> walks \<^verbatim>\<open>vars(obj).items()\<close>: the attributes in the order
  \<^verbatim>\<open>__init__\<close> assigns them, each with a value that is an int, a string, a list or
  \<^verbatim>\<open>None\<close>.
\<close>

datatype py_value = PyInt int | PyStr string | PyList "string list" | PyNone

definition vars_DriverInputs :: "DriverInputs \<Rightarrow> (string \<times> py_value) list" where
  "vars_DriverInputs d =
     [(''at_fault_major'', PyInt (at_fault_major d)),
      (''at_fault_minor'', PyInt (at_fault_minor d)),
      (''no_fault'', PyInt (no_fault d)),
      (''hit_n_runs'', PyInt (hit_n_runs d)),
      (''duis'', PyInt (duis d)),
      (''age'', PyInt (age d)),
      (''years_clean'', PyInt (years_clean d)),
      (''violations'', PyInt (violations d))]"

definition vars_VehicleInputs :: "VehicleInputs \<Rightarrow> (string \<times> py_value) list" where
  "vars_VehicleInputs v =
     [(''brand_type_score'', PyInt (brand_type_score v)),
      (''repair_complexity_score'', PyInt (repair_complexity_score v)),
      (''parts_score'', PyInt (parts_score v)),
      (''vehicle_age'', PyInt (vehicle_age v)),
      (''theft_score'', PyInt (theft_score v)),
      (''anti_theft_feature_score'', PyInt (anti_theft_feature_score v)),
      (''crash_test_rating'', PyInt (crash_test_rating v)),
      (''active_safety_features'', PyInt (active_safety_features v)),
      (''passive_safety_features'', PyInt (passive_safety_features v))]"

definition vars_LocationInputs :: "LocationInputs \<Rightarrow> (string \<times> py_value) list" where
  "vars_LocationInputs l =
     [(''crime_level_factor'', PyInt (crime_level_factor l)),
      (''anti_theft_adjustment'', PyInt (anti_theft_adjustment l))]"

definition vars_PolicyInputs :: "PolicyInputs \<Rightarrow> (string \<times> py_value) list" where
  "vars_PolicyInputs p =
     [(''coverage_type'', (case coverage_type p of None \<Rightarrow> PyNone | Some s \<Rightarrow> PyStr s)),
      (''add_ons'', (case add_ons p of None \<Rightarrow> PyNone | Some xs \<Rightarrow> PyList xs))]"

text \<open>
  \<^verbatim>\<open>c.isspace()\<close> for a character below 256: the characters that
  \<^verbatim>\<open>value.strip()\<close> removes.
\<close>

definition py_isspace :: "char \<Rightarrow> bool" where
  "py_isspace c =
     (let n = (of_char c :: nat)
      in (9 \<le> n \<and> n \<le> 13) \<or> (28 \<le> n \<and> n \<le> 32) \<or> n = 133 \<or> n = 160)"

fun check_value :: "string \<Rightarrow> py_value \<Rightarrow> logger \<Rightarrow> logger" where
  "check_value full_path (PyInt i) lg =
     (if i = - 1 then emit (DefaultMinusOne full_path) lg else lg)"
| "check_value full_path (PyStr s) lg =
     (if dropWhile py_isspace s = [] then emit (DefaultNotSet full_path) lg else lg)"
| "check_value full_path (PyList xs) lg =
     (if length xs = 0 then emit (DefaultListEmpty full_path) lg else lg)"
| "check_value full_path PyNone lg = emit (DefaultIsNone full_path) lg"

fun check_attrs :: "string \<Rightarrow> (string \<times> py_value) list \<Rightarrow> logger \<Rightarrow> logger" where
  "check_attrs path [] lg = lg"
| "check_attrs path ((attr, val) # rest) lg =
     (let full_path = (if path \<noteq> [] then path @ ''.'' @ attr else attr)
      in check_attrs path rest (check_value full_path val lg))"

text \<open>
  \<^verbatim>\<open>check_defaults(obj, path, logger)\<close>, called with a logger as \<^verbatim>\<open>calculate_quote\<close>
  does; \<open>obj\<close> is \<open>None\<close> or the attributes of the object.
\<close>

definition check_defaults :: "(string \<times> py_value) list option \<Rightarrow> string \<Rightarrow> logger \<Rightarrow> logger" where
  "check_defaults obj path lg =
     (case obj of
        None \<Rightarrow> emit DefaultsObjIsNone lg
      | Some attrs \<Rightarrow> check_attrs path attrs lg)"

subsection \<open>Quote composer\<close>

text \<open>The dict \<^verbatim>\<open>calculate_quote\<close> returns, with its two nested dicts.\<close>

record Weights =
  driver_risk :: real
  vehicle_risk :: real
  location_risk :: real
  policy_adjustment :: real
  discount :: real

record Scores =
  repair_score :: real
  theft_score :: real
  safety_score :: real

record QuoteResult =
  base_rate :: real
  original_quote :: real
  total_discount :: real
  quote :: real
  weights :: Weights
  scores :: Scores

text \<open>
  \<^verbatim>\<open>calculate_quote\<close>. Reading an attribute of a profile that is \<^verbatim>\<open>None\<close> raises
  \<^verbatim>\<open>AttributeError\<close>, at the first statement that reads one; an exception of
  \<^verbatim>\<open>calc_policy_adjustment\<close> is not caught here.
\<close>

definition calculate_quote :: "QuoteInputs \<Rightarrow> logger \<Rightarrow> (py_error + QuoteResult) \<times> logger" where
  "calculate_quote quote_inputs_ctx lg =
     (let lg1 = check_defaults (map_option vars_DriverInputs (driver_inputs quote_inputs_ctx))
                  ''driver_inputs'' lg;
          lg2 = check_defaults (map_option vars_VehicleInputs (vehicle_inputs quote_inputs_ctx))
                  ''vehicle_inputs'' lg1;
          lg3 = check_defaults (map_option vars_LocationInputs (location_inputs quote_inputs_ctx))
                  ''location_inputs'' lg2;
          lg4 = check_defaults (map_option vars_PolicyInputs (policy_inputs quote_inputs_ctx))
                  ''policy_inputs'' lg3;
          bp = calc_base_rate
      in
      (case driver_inputs quote_inputs_ctx of
        None \<Rightarrow> (Inl AttributeError, lg4)
      | Some d \<Rightarrow>
      (let accident_points =
            calc_accident_points (of_int (at_fault_major d)) (of_int (at_fault_minor d))
              (of_int (no_fault d)) (of_int (hit_n_runs d)) (of_int (duis d));
          violation_points = calc_violation_points (of_int (violations d));
          dr = calc_driver_risk accident_points violation_points
                 (of_int (years_clean d)) (of_int (age d))
      in
      (case location_inputs quote_inputs_ctx of
        None \<Rightarrow> (Inl AttributeError, lg4)
      | Some l \<Rightarrow>
      (let crime_score =
            calc_crime_score (of_int (crime_level_factor l)) (of_int (anti_theft_adjustment l));
          lr = calc_location_risk accident_points crime_score
      in
      (case vehicle_inputs quote_inputs_ctx of
        None \<Rightarrow> (Inl AttributeError, lg4)
      | Some v \<Rightarrow>
      (let repair_score' =
            calc_repair_score (of_int (brand_type_score v)) (of_int (repair_complexity_score v))
              (of_int (parts_score v)) (of_int (vehicle_age v));
          theft_score' =
            calc_theft_score (of_int (VehicleInputs.theft_score v)) lr
              (of_int (anti_theft_feature_score v));
          safety_score' =
            calc_saftey_score (of_int (crash_test_rating v)) (of_int (active_safety_features v))
              (of_int (passive_safety_features v));
          vr = calc_vehicle_risk repair_score' theft_score' safety_score'
      in
      (case policy_inputs quote_inputs_ctx of
        None \<Rightarrow> (Inl AttributeError, lg4)
      | Some p \<Rightarrow>
      (case calc_policy_adjustment (coverage_type p) (add_ons p) lg4 of
        (Inl e, lg5) \<Rightarrow> (Inl e, lg5)
      | (Inr policy_adjustment', lg5) \<Rightarrow>
      (case discount_inputs quote_inputs_ctx of
        None \<Rightarrow> (Inl AttributeError, lg5)
      | Some ds \<Rightarrow>
      (case calc_discounts (coverage_type p) (discounts ds) lg5 of
        (Inl e, lg6) \<Rightarrow> (Inl e, lg6)
      | (Inr dd, lg6) \<Rightarrow>
      (let lg7 = emit (QuoteFactors bp dr vr lr policy_adjustment' dd) lg6;
          quote' = bp * dr * vr * lr * policy_adjustment';
          discounted_total = quote' * dd;
          adjusted_quote = quote' - discounted_total;
          lg8 = emit (QuoteTotals adjusted_quote discounted_total) lg7
      in (Inr \<lparr>base_rate = bp,
                original_quote = quote',
                total_discount = discounted_total,
                quote = adjusted_quote,
                weights = \<lparr>driver_risk = dr, vehicle_risk = vr, location_risk = lr,
                            policy_adjustment = policy_adjustment', discount = dd\<rparr>,
                scores = \<lparr>repair_score = repair_score', theft_score = theft_score',
                           safety_score = safety_score'\<rparr>\<rparr>,
          lg8)))))))))))))"

text \<open>The request of \<^verbatim>\<open>run_test_quote\<close> in \<^verbatim>\<open>src/test.py\<close>.\<close>

definition test_quote_inputs :: QuoteInputs where
  "test_quote_inputs =
     \<lparr>driver_inputs = Some
        \<lparr>at_fault_major = 1, at_fault_minor = 1, no_fault = 2, hit_n_runs = 0, duis = 0,
         age = 23, years_clean = 5, violations = 1\<rparr>,
      vehicle_inputs = Some
        \<lparr>brand_type_score = 3, repair_complexity_score = 2, parts_score = 4, vehicle_age = 15,
         theft_score = 5, anti_theft_feature_score = 2, crash_test_rating = 4,
         active_safety_features = 2, passive_safety_features = 3\<rparr>,
      location_inputs = Some \<lparr>crime_level_factor = 4, anti_theft_adjustment = 2\<rparr>,
      policy_inputs = Some
        \<lparr>coverage_type = Some CoverageType_FULL_COVERAGE,
         add_ons = Some [AddOnKeys_ROADSIDE_ASSISTANCE, AddOnKeys_RENTAL_REIMBURSEMENT]\<rparr>,
      discount_inputs = Some \<lparr>discounts = Some (get_discounts True True False True)\<rparr>\<rparr>"

subsection \<open>The sums the specification speaks of\<close>

text \<open>
  Not in the source: the specification's "sum of the weights of all recognized keys" of a
  list of requested keys, against a sub-table. A key that the sub-table does not have
  counts nothing, wherever it stands in the list; a key requested twice counts twice.
\<close>

definition sum_recognized :: "(string \<times> real) list \<Rightarrow> string list \<Rightarrow> real" where
  "sum_recognized tbl keys =
     sum_list (map (\<lambda>k. case map_of tbl k of None \<Rightarrow> 0 | Some w \<Rightarrow> w) keys)"

section \<open>Properties\<close>

subsection \<open>Facts about the tables and the two loops\<close>

lemmas key_defs =
  CoverageType_LIABILITY_def CoverageType_FULL_COVERAGE_def CoverageType_COLLISION_ONLY_def
  AddOnKeys_ROADSIDE_ASSISTANCE_def AddOnKeys_RENTAL_REIMBURSEMENT_def
  AddOnKeys_GLASS_COVERAGE_def AddOnKeys_GAP_COVERAGE_def
  DiscountKeys_MULTI_POLICY_def DiscountKeys_SAFE_DRIVER_def
  DiscountKeys_LOW_MILEAGE_def DiscountKeys_ANTI_THEFT_def

lemmas weight_defs =
  AddOnWeights_ROADSIDE_ASSISTANCE_def AddOnWeights_RENTAL_REIMBURSEMENT_def
  AddOnWeights_GLASS_COVERAGE_def AddOnWeights_GAP_COVERAGE_def
  DiscountWeights_MULTI_POLICY_def DiscountWeights_SAFE_DRIVER_def
  DiscountWeights_LOW_MILEAGE_def DiscountWeights_ANTI_THEFT_def

lemma dict_get_in_set: "dict_get d key = Some v \<Longrightarrow> \<exists>k. key = Some k \<and> (k, v) \<in> set d"
  by (auto simp: dict_get_def split: option.splits dest: map_of_SomeD)

lemma policy_weight_not_sentinel: "(k, e) \<in> set POLICY_ADD_ON_MAP \<Longrightarrow> weight e \<noteq> - 1"
  by (auto simp: POLICY_ADD_ON_MAP_def)

lemma policy_weight_ge_1: "(k, e) \<in> set POLICY_ADD_ON_MAP \<Longrightarrow> 1 \<le> weight e"
  by (auto simp: POLICY_ADD_ON_MAP_def)

lemma add_on_weights_nonneg:
  "(k, e) \<in> set POLICY_ADD_ON_MAP \<Longrightarrow> (a, w) \<in> set (add_ons_map e) \<Longrightarrow> 0 \<le> w"
  by (auto simp: POLICY_ADD_ON_MAP_def weight_defs)

text \<open>
  The add-on loop adds the weights of the keys up to the first one the sub-table does
  not have, and ends with \<open>KeyError\<close> exactly when there is such a key.
\<close>

lemma add_ons_loop_fst:
  "fst (add_ons_loop tbl keys acc) =
     acc + sum_recognized tbl (takeWhile (\<lambda>k. map_of tbl k \<noteq> None) keys)"
  by (induction keys arbitrary: acc) (auto simp: sum_recognized_def split: option.splits)

lemma add_ons_loop_snd:
  "snd (add_ons_loop tbl keys acc) =
     (if \<forall>k \<in> set keys. map_of tbl k \<noteq> None then None else Some KeyError)"
  by (induction keys arbitrary: acc) (auto split: option.splits)

lemma add_ons_loop_ge:
  "\<forall>(a, w) \<in> set tbl. 0 \<le> w \<Longrightarrow> acc \<le> fst (add_ons_loop tbl keys acc)"
proof (induction keys arbitrary: acc)
  case Nil
  then show ?case by simp
next
  case (Cons k keys)
  show ?case
  proof (cases "map_of tbl k")
    case None
    then show ?thesis by simp
  next
    case (Some w)
    then have "(k, w) \<in> set tbl" by (rule map_of_SomeD)
    with Cons.prems have "0 \<le> w" by auto
    moreover have "acc + w \<le> fst (add_ons_loop tbl keys (acc + w))"
      using Cons.IH [OF Cons.prems] .
    ultimately show ?thesis using Some by simp
  qed
qed

text \<open>
  The discount loop adds the fraction of every key the sub-table has and logs each of
  the others.
\<close>

lemma discounts_loop_fst:
  "fst (discounts_loop tbl pt keys acc lg) = acc + sum_recognized tbl keys"
  by (induction keys arbitrary: acc lg) (auto simp: sum_recognized_def split: option.splits)

lemma discounts_loop_snd:
  "snd (discounts_loop tbl pt keys acc lg) =
     lg @ map (\<lambda>k. DiscountKeyNotFound k pt) (filter (\<lambda>k. map_of tbl k = None) keys)"
  by (induction keys arbitrary: acc lg) (auto simp: emit_def split: option.splits)

subsection \<open>Policy resolver: a coverage type the table does not have\<close>

text \<open>
  Claim C1. The claim: for a coverage type absent from the policy table,
  \<open>calc_policy_adjustment\<close> signals the failure through its returned value and lets no
  exception escape. What the code does: the entry is \<open>None\<close> and is subscripted before
  any check, so the call raises \<open>TypeError\<close>; nothing is returned, nothing is logged.
  This holds for every absent coverage type (the default \<open>None\<close> of \<open>PolicyInputs\<close>
  among them) and every list of add-ons.
\<close>

theorem calc_policy_adjustment_absent_coverage_raises:
  "dict_get POLICY_ADD_ON_MAP policy_type = None \<Longrightarrow>
     calc_policy_adjustment policy_type requested lg = (Inl TypeError, lg)"
  by (simp add: calc_policy_adjustment_def)

theorem calc_policy_adjustment_absent_coverage_raises_witness:
  "dict_get POLICY_ADD_ON_MAP (Some ''premium'') = None \<and>
   calc_policy_adjustment (Some ''premium'') (Some []) [] = (Inl TypeError, [])"
proof -
  have h: "dict_get POLICY_ADD_ON_MAP (Some ''premium'') = None"
    by (simp add: dict_get_def POLICY_ADD_ON_MAP_def key_defs)
  show ?thesis
    using h calc_policy_adjustment_absent_coverage_raises [OF h, of "Some []" "[]"] by simp
qed

subsection \<open>Policy resolver: an add-on the coverage does not offer\<close>

text \<open>
  Claim C2. The claim: an add-on key that the coverage's sub-table does not have is
  skipped on its own, and the recognized keys after it are still counted. What the code
  does, on liability cover with gap coverage (not offered under liability) requested
  before roadside assistance: the \<open>KeyError\<close> of the first key ends the loop, the
  handler logs it, and the result is the base weight 1.0 alone, where the base weight plus
  the recognized add-ons is 1.15.
\<close>

theorem calc_policy_adjustment_stops_at_unknown_add_on:
  "calc_policy_adjustment (Some CoverageType_LIABILITY)
       (Some [AddOnKeys_GAP_COVERAGE, AddOnKeys_ROADSIDE_ASSISTANCE]) []
     = (Inr 1, [PolicyAdjustmentFailed KeyError])
   \<and> dict_get POLICY_ADD_ON_MAP (Some CoverageType_LIABILITY)
     = Some \<lparr>weight = 1,
             add_ons_map =
               [(AddOnKeys_ROADSIDE_ASSISTANCE, 0.15),
                (AddOnKeys_RENTAL_REIMBURSEMENT, 0.1),
                (AddOnKeys_GLASS_COVERAGE, 0.05)]\<rparr>
   \<and> 1 + sum_recognized
           [(AddOnKeys_ROADSIDE_ASSISTANCE, 0.15),
            (AddOnKeys_RENTAL_REIMBURSEMENT, 0.1),
            (AddOnKeys_GLASS_COVERAGE, 0.05)]
           [AddOnKeys_GAP_COVERAGE, AddOnKeys_ROADSIDE_ASSISTANCE] = 1.15"
  by (simp add: calc_policy_adjustment_def dict_get_def POLICY_ADD_ON_MAP_def key_defs
        weight_defs emit_def sum_recognized_def)

subsection \<open>Policy resolver: the reference add-ons\<close>

text \<open>
  Claim C7. On full coverage with roadside assistance and rental reimbursement the
  policy adjustment is the base weight 1.5 plus the add-on weights 0.15 and 0.1, that is
  1.75; no exception is raised and nothing is logged.
\<close>

theorem calc_policy_adjustment_full_coverage_example:
  "calc_policy_adjustment (Some ''full_coverage'')
       (Some [''roadside_assistance'', ''rental_reimbursement'']) lg = (Inr 1.75, lg)
   \<and> (1.5 + 0.15 + 0.1 :: real) = 1.75
   \<and> map_of POLICY_ADD_ON_MAP ''full_coverage''
       = Some \<lparr>weight = 1.5,
               add_ons_map =
                 [(''roadside_assistance'', 0.15), (''rental_reimbursement'', 0.1),
                  (''gap_coverage'', 0.05), (''glass_coverage'', 0.05)]\<rparr>"
  by (simp add: calc_policy_adjustment_def dict_get_def POLICY_ADD_ON_MAP_def key_defs
        weight_defs)

subsection \<open>Discount resolver\<close>

lemma calc_discounts_present:
  "dict_get POLICY_DISCOUNT_MAP pt = Some discount_obj \<Longrightarrow>
     calc_discounts pt (Some keys) lg =
       (Inr (sum_recognized discount_obj keys),
        lg @ map (\<lambda>k. DiscountKeyNotFound k pt) (filter (\<lambda>k. map_of discount_obj k = None) keys))"
proof -
  assume h: "dict_get POLICY_DISCOUNT_MAP pt = Some discount_obj"
  obtain t lg' where l: "discounts_loop discount_obj pt keys 0.0 lg = (t, lg')"
    by (cases "discounts_loop discount_obj pt keys 0.0 lg")
  have "t = sum_recognized discount_obj keys"
    using discounts_loop_fst [of discount_obj pt keys "0.0" lg] l by simp
  moreover have "lg' = lg @ map (\<lambda>k. DiscountKeyNotFound k pt) (filter (\<lambda>k. map_of discount_obj k = None) keys)"
    using discounts_loop_snd [of discount_obj pt keys "0.0" lg] l by simp
  ultimately show ?thesis using h l by (simp add: calc_discounts_def)
qed

lemma sum_recognized_skip:
  "map_of tbl k = None \<Longrightarrow> sum_recognized tbl (xs @ k # ys) = sum_recognized tbl (xs @ ys)"
  by (simp add: sum_recognized_def)

text \<open>
  Claim C5. For a coverage type the discount table does not have, \<open>calc_discounts\<close>
  returns 0.0 (and logs the invalid policy type) whatever is requested. For a coverage
  type the table has, with sub-table \<open>discount_obj\<close>, and any list of requested keys,
  it returns the sum of the fractions of the recognized keys and logs each unrecognized
  key once per occurrence; an unrecognized key anywhere in the list leaves the returned
  sum as it is without that key. In particular liability with safe_driver gives 0.0.
\<close>

theorem calc_discounts_sums_recognized:
  "(dict_get POLICY_DISCOUNT_MAP policy_type = None \<longrightarrow>
      calc_discounts policy_type requested lg
        = (Inr 0.0, emit (DiscountInvalidPolicyType policy_type) lg))
   \<and> (dict_get POLICY_DISCOUNT_MAP policy_type' = Some discount_obj \<longrightarrow>
        calc_discounts policy_type' (Some keys) lg =
          (Inr (sum_recognized discount_obj keys),
           lg @ map (\<lambda>k. DiscountKeyNotFound k policy_type')
                  (filter (\<lambda>k. map_of discount_obj k = None) keys))
        \<and> (map_of discount_obj k = None \<longrightarrow>
             fst (calc_discounts policy_type' (Some (xs @ k # ys)) lg)
               = fst (calc_discounts policy_type' (Some (xs @ ys)) lg)))
   \<and> fst (calc_discounts (Some ''liability'') (Some [''safe_driver'']) lg) = Inr 0.0"
proof (intro conjI impI)
  assume "dict_get POLICY_DISCOUNT_MAP policy_type = None"
  then show "calc_discounts policy_type requested lg
        = (Inr 0.0, emit (DiscountInvalidPolicyType policy_type) lg)"
    by (simp add: calc_discounts_def)
next
  assume "dict_get POLICY_DISCOUNT_MAP policy_type' = Some discount_obj"
  then show "calc_discounts policy_type' (Some keys) lg =
          (Inr (sum_recognized discount_obj keys),
           lg @ map (\<lambda>k. DiscountKeyNotFound k policy_type')
                  (filter (\<lambda>k. map_of discount_obj k = None) keys))"
    by (rule calc_discounts_present)
next
  assume h: "dict_get POLICY_DISCOUNT_MAP policy_type' = Some discount_obj"
    and k: "map_of discount_obj k = None"
  show "fst (calc_discounts policy_type' (Some (xs @ k # ys)) lg)
               = fst (calc_discounts policy_type' (Some (xs @ ys)) lg)"
    using k by (simp add: calc_discounts_present [OF h] sum_recognized_skip)
next
  show "fst (calc_discounts (Some ''liability'') (Some [''safe_driver'']) lg) = Inr 0.0"
    by (simp add: calc_discounts_def dict_get_def POLICY_DISCOUNT_MAP_def key_defs)
qed

theorem calc_discounts_sums_recognized_witness:
  "dict_get POLICY_DISCOUNT_MAP (Some ''premium'') = None
   \<and> calc_discounts (Some ''premium'') (Some [''safe_driver'']) []
       = (Inr 0, [DiscountInvalidPolicyType (Some ''premium'')])
   \<and> dict_get POLICY_DISCOUNT_MAP (Some ''liability'')
       = Some [(''multi_policy'', 0.1), (''low_mileage'', 0.05)]
   \<and> map_of [(''multi_policy'', 0.1 :: real), (''low_mileage'', 0.05)] ''safe_driver'' = None
   \<and> calc_discounts (Some ''liability'') (Some [''multi_policy'', ''safe_driver'', ''low_mileage'']) []
       = (Inr 0.15, [DiscountKeyNotFound ''safe_driver'' (Some ''liability'')])
   \<and> fst (calc_discounts (Some ''liability'') (Some [''multi_policy'', ''safe_driver'', ''low_mileage'']) [])
       = fst (calc_discounts (Some ''liability'') (Some [''multi_policy'', ''low_mileage'']) [])"
proof -
  have a: "dict_get POLICY_DISCOUNT_MAP (Some ''premium'') = None"
    by (simp add: dict_get_def POLICY_DISCOUNT_MAP_def key_defs)
  have b: "dict_get POLICY_DISCOUNT_MAP (Some ''liability'')
       = Some [(''multi_policy'', 0.1), (''low_mileage'', 0.05)]"
    by (simp add: dict_get_def POLICY_DISCOUNT_MAP_def key_defs weight_defs)
  have c: "map_of [(''multi_policy'', 0.1 :: real), (''low_mileage'', 0.05)] ''safe_driver'' = None"
    by simp
  note t = calc_discounts_sums_recognized [of "Some ''premium''" "Some [''safe_driver'']" "[]" "Some ''liability''"
          "[(''multi_policy'', 0.1), (''low_mileage'', 0.05)]"
          "[''multi_policy'', ''safe_driver'', ''low_mileage'']" "''safe_driver''"
          "[''multi_policy'']" "[''low_mileage'']"]
  note t2 = t [THEN conjunct2, THEN conjunct1, THEN mp, OF b]
  have r1: "calc_discounts (Some ''premium'') (Some [''safe_driver'']) []
       = (Inr 0, [DiscountInvalidPolicyType (Some ''premium'')])"
    using t [THEN conjunct1, THEN mp, OF a] by (simp add: emit_def)
  have r2: "calc_discounts (Some ''liability'') (Some [''multi_policy'', ''safe_driver'', ''low_mileage'']) []
       = (Inr 0.15, [DiscountKeyNotFound ''safe_driver'' (Some ''liability'')])"
    using t2 [THEN conjunct1] by (simp add: sum_recognized_def)
  have r3: "fst (calc_discounts (Some ''liability'') (Some [''multi_policy'', ''safe_driver'', ''low_mileage'']) [])
       = fst (calc_discounts (Some ''liability'') (Some [''multi_policy'', ''low_mileage'']) [])"
    using t2 [THEN conjunct2, THEN mp, OF c] by simp
  show ?thesis using a b c r1 r2 r3 by blast
qed

subsection \<open>Both resolvers: no list at all\<close>

text \<open>
  Claim C10. For a coverage type the policy table has, \<open>calc_policy_adjustment\<close> called
  with \<open>None\<close> for the add-ons returns the base weight of its entry; for a coverage type
  the discount table has, \<open>calc_discounts\<close> called with \<open>None\<close> for the discounts
  returns 0.0. In both the \<open>TypeError\<close> of iterating over \<open>None\<close> is caught by the
  function's own handler, which logs it: the call returns a value.
\<close>

theorem resolvers_catch_None_list:
  "(dict_get POLICY_ADD_ON_MAP policy_type = Some policy_obj \<longrightarrow>
      calc_policy_adjustment policy_type None lg
        = (Inr (weight policy_obj), emit (PolicyAdjustmentFailed TypeError) lg))
   \<and> (dict_get POLICY_DISCOUNT_MAP policy_type' = Some discount_obj \<longrightarrow>
      calc_discounts policy_type' None lg = (Inr 0.0, emit (DiscountsFailed TypeError) lg))"
proof (intro conjI impI)
  assume h: "dict_get POLICY_ADD_ON_MAP policy_type = Some policy_obj"
  then obtain k where "(k, policy_obj) \<in> set POLICY_ADD_ON_MAP"
    using dict_get_in_set by fastforce
  then have "weight policy_obj \<noteq> - 1" by (rule policy_weight_not_sentinel)
  then show "calc_policy_adjustment policy_type None lg
        = (Inr (weight policy_obj), emit (PolicyAdjustmentFailed TypeError) lg)"
    using h by (simp add: calc_policy_adjustment_def)
next
  assume "dict_get POLICY_DISCOUNT_MAP policy_type' = Some discount_obj"
  then show "calc_discounts policy_type' None lg = (Inr 0.0, emit (DiscountsFailed TypeError) lg)"
    by (simp add: calc_discounts_def)
qed

theorem resolvers_catch_None_list_witness:
  "dict_get POLICY_ADD_ON_MAP (Some ''collision_only'')
     = Some \<lparr>weight = 1.2, add_ons_map = [(''rental_reimbursement'', 0.1), (''glass_coverage'', 0.05)]\<rparr>
   \<and> calc_policy_adjustment (Some ''collision_only'') None []
     = (Inr 1.2, [PolicyAdjustmentFailed TypeError])
   \<and> dict_get POLICY_DISCOUNT_MAP (Some ''collision_only'')
     = Some [(''safe_driver'', 0.12), (''low_mileage'', 0.05)]
   \<and> calc_discounts (Some ''collision_only'') None [] = (Inr 0, [DiscountsFailed TypeError])"
proof -
  have a: "dict_get POLICY_ADD_ON_MAP (Some ''collision_only'')
     = Some \<lparr>weight = 1.2, add_ons_map = [(''rental_reimbursement'', 0.1), (''glass_coverage'', 0.05)]\<rparr>"
    by (simp add: dict_get_def POLICY_ADD_ON_MAP_def key_defs weight_defs)
  have b: "dict_get POLICY_DISCOUNT_MAP (Some ''collision_only'')
     = Some [(''safe_driver'', 0.12), (''low_mileage'', 0.05)]"
    by (simp add: dict_get_def POLICY_DISCOUNT_MAP_def key_defs weight_defs)
  show ?thesis
    using a b
      resolvers_catch_None_list [of "Some ''collision_only''"
           "\<lparr>weight = 1.2, add_ons_map = [(''rental_reimbursement'', 0.1), (''glass_coverage'', 0.05)]\<rparr>"
           "[]" "Some ''collision_only''" "[(''safe_driver'', 0.12), (''low_mileage'', 0.05)]"]
    by (simp add: emit_def)
qed

subsection \<open>The static tables: one entry each, no sentinel weight\<close>

lemma calc_policy_adjustment_present:
  assumes h: "dict_get POLICY_ADD_ON_MAP pt = Some policy_obj"
  shows "\<exists>x events. calc_policy_adjustment pt requested lg = (Inr x, lg @ events)
            \<and> weight policy_obj \<le> x \<and> PolicyWeightInvalidKey \<notin> set events"
proof -
  obtain k where k: "(k, policy_obj) \<in> set POLICY_ADD_ON_MAP"
    using h dict_get_in_set by fastforce
  have w: "weight policy_obj \<noteq> - 1" using k by (rule policy_weight_not_sentinel)
  have nn: "\<forall>(a, w) \<in> set (add_ons_map policy_obj). 0 \<le> w"
    using add_on_weights_nonneg [OF k] by auto
  show ?thesis
  proof (cases requested)
    case None
    then show ?thesis using h w by (simp add: calc_policy_adjustment_def emit_def)
  next
    case (Some keys)
    obtain adj exc where l: "add_ons_loop (add_ons_map policy_obj) keys 0 = (adj, exc)"
      by (cases "add_ons_loop (add_ons_map policy_obj) keys 0")
    have "0 \<le> adj" using add_ons_loop_ge [OF nn, of 0 keys] l by simp
    then show ?thesis using h w Some l
      by (cases exc) (simp_all add: calc_policy_adjustment_def emit_def)
  qed
qed

text \<open>
  Claim C6. Each of the three coverage types is the key of exactly one item of the
  policy table and of exactly one item of the discount table. No base weight stored in
  the policy table is the sentinel -1; so for a coverage type the table has,
  \<open>calc_policy_adjustment\<close> never takes the branch that logs the invalid weight and
  returns -1: it returns a number other than -1, and the records it logs do not include
  that warning.
\<close>

theorem policy_tables_one_entry_no_sentinel:
  "(\<forall>c \<in> set [CoverageType_LIABILITY, CoverageType_FULL_COVERAGE, CoverageType_COLLISION_ONLY].
       length (filter (\<lambda>item. fst item = c) POLICY_ADD_ON_MAP) = 1
     \<and> length (filter (\<lambda>item. fst item = c) POLICY_DISCOUNT_MAP) = 1)
   \<and> (\<forall>item \<in> set POLICY_ADD_ON_MAP. weight (snd item) \<noteq> - 1)
   \<and> (dict_get POLICY_ADD_ON_MAP policy_type = Some policy_obj \<longrightarrow>
        (\<exists>x events. calc_policy_adjustment policy_type requested lg = (Inr x, lg @ events)
            \<and> x \<noteq> - 1 \<and> PolicyWeightInvalidKey \<notin> set events))"
proof (intro conjI impI)
  show "\<forall>c \<in> set [CoverageType_LIABILITY, CoverageType_FULL_COVERAGE, CoverageType_COLLISION_ONLY].
       length (filter (\<lambda>item. fst item = c) POLICY_ADD_ON_MAP) = 1
     \<and> length (filter (\<lambda>item. fst item = c) POLICY_DISCOUNT_MAP) = 1"
    by (simp add: POLICY_ADD_ON_MAP_def POLICY_DISCOUNT_MAP_def key_defs)
next
  show "\<forall>item \<in> set POLICY_ADD_ON_MAP. weight (snd item) \<noteq> - 1"
    by (simp add: POLICY_ADD_ON_MAP_def)
next
  assume h: "dict_get POLICY_ADD_ON_MAP policy_type = Some policy_obj"
  then obtain k where k: "(k, policy_obj) \<in> set POLICY_ADD_ON_MAP"
    using dict_get_in_set by fastforce
  have "1 \<le> weight policy_obj" using k by (rule policy_weight_ge_1)
  moreover obtain x events where
    "calc_policy_adjustment policy_type requested lg = (Inr x, lg @ events)"
    "weight policy_obj \<le> x" "PolicyWeightInvalidKey \<notin> set events"
    using calc_policy_adjustment_present [OF h, of requested lg] by blast
  ultimately show "\<exists>x events. calc_policy_adjustment policy_type requested lg = (Inr x, lg @ events)
            \<and> x \<noteq> - 1 \<and> PolicyWeightInvalidKey \<notin> set events"
    by (intro exI [of _ x] exI [of _ events]) simp
qed

theorem policy_tables_one_entry_no_sentinel_witness:
  "CoverageType_FULL_COVERAGE \<in> set [CoverageType_LIABILITY, CoverageType_FULL_COVERAGE, CoverageType_COLLISION_ONLY]
   \<and> length (filter (\<lambda>item. fst item = CoverageType_FULL_COVERAGE) POLICY_ADD_ON_MAP) = 1
   \<and> length (filter (\<lambda>item. fst item = CoverageType_FULL_COVERAGE) POLICY_DISCOUNT_MAP) = 1
   \<and> dict_get POLICY_ADD_ON_MAP (Some ''liability'')
       = Some \<lparr>weight = 1, add_ons_map = [(''roadside_assistance'', 0.15),
            (''rental_reimbursement'', 0.1), (''glass_coverage'', 0.05)]\<rparr>
   \<and> (\<exists>x events. calc_policy_adjustment (Some ''liability'') (Some [''bogus'']) [] = (Inr x, [] @ events)
            \<and> x \<noteq> - 1 \<and> PolicyWeightInvalidKey \<notin> set events)"
proof -
  have a: "CoverageType_FULL_COVERAGE \<in> set [CoverageType_LIABILITY, CoverageType_FULL_COVERAGE, CoverageType_COLLISION_ONLY]"
    by simp
  have b: "dict_get POLICY_ADD_ON_MAP (Some ''liability'')
       = Some \<lparr>weight = 1, add_ons_map = [(''roadside_assistance'', 0.15),
            (''rental_reimbursement'', 0.1), (''glass_coverage'', 0.05)]\<rparr>"
    by (simp add: dict_get_def POLICY_ADD_ON_MAP_def key_defs weight_defs)
  note t = policy_tables_one_entry_no_sentinel [of "Some ''liability''" "\<lparr>weight = 1, add_ons_map = [(''roadside_assistance'', 0.15),
            (''rental_reimbursement'', 0.1), (''glass_coverage'', 0.05)]\<rparr>" "Some [''bogus'']" "[]"]
  note t1 = t [THEN conjunct1, THEN bspec, OF a]
  note t3 = t [THEN conjunct2, THEN conjunct2, THEN mp, OF b]
  show ?thesis using a b t1 t3 by blast
qed

subsection \<open>Driver risk\<close>

text \<open>
  Claim C4. \<open>calc_driver_risk\<close> is
  \<open>1 + 0.02 a + 0.015 v - 0.01 (- 0.01 y) + adjustment\<close> for accident points \<open>a\<close>,
  violation points \<open>v\<close> and years clean \<open>y\<close>: the years-clean term is negated twice
  and so contributes \<open>+ 0.0001 y\<close>. The adjustment is 0.15 for an age below 25, 0.0
  from 25 to below 65 and 0.10 from 65 on; at 24, 25, 64 and 65 it is 0.15, 0.0, 0.0
  and 0.10.
\<close>

theorem calc_driver_risk_formula:
  "calc_driver_risk accident_points violation_points years driver_age =
     1 + 0.02 * accident_points + 0.015 * violation_points - 0.01 * (- 0.01 * years)
       + (if driver_age < 25 then 0.15 else if driver_age < 65 then 0.0 else 0.10)
   \<and> calc_driver_risk accident_points violation_points years driver_age =
     1 + 0.02 * accident_points + 0.015 * violation_points + 0.0001 * years
       + (if driver_age < 25 then 0.15 else if driver_age < 65 then 0.0 else 0.10)
   \<and> (driver_age < 25 \<longrightarrow> calc_driver_risk accident_points violation_points years driver_age =
         1 + 0.02 * accident_points + 0.015 * violation_points - 0.01 * (- 0.01 * years) + 0.15)
   \<and> (25 \<le> driver_age \<and> driver_age < 65 \<longrightarrow> calc_driver_risk accident_points violation_points years driver_age =
         1 + 0.02 * accident_points + 0.015 * violation_points - 0.01 * (- 0.01 * years) + 0.0)
   \<and> (65 \<le> driver_age \<longrightarrow> calc_driver_risk accident_points violation_points years driver_age =
         1 + 0.02 * accident_points + 0.015 * violation_points - 0.01 * (- 0.01 * years) + 0.10)
   \<and> calc_driver_risk accident_points violation_points years 24 =
         1 + 0.02 * accident_points + 0.015 * violation_points - 0.01 * (- 0.01 * years) + 0.15
   \<and> calc_driver_risk accident_points violation_points years 25 =
         1 + 0.02 * accident_points + 0.015 * violation_points - 0.01 * (- 0.01 * years) + 0.0
   \<and> calc_driver_risk accident_points violation_points years 64 =
         1 + 0.02 * accident_points + 0.015 * violation_points - 0.01 * (- 0.01 * years) + 0.0
   \<and> calc_driver_risk accident_points violation_points years 65 =
         1 + 0.02 * accident_points + 0.015 * violation_points - 0.01 * (- 0.01 * years) + 0.10"
  by (simp add: calc_driver_risk_def Let_def)


theorem calc_driver_risk_formula_witness:
  "(23 :: real) < 25 \<and> calc_driver_risk 5.5 0.015 5 23 = 1.260725
   \<and> (25 :: real) \<le> 40 \<and> (40 :: real) < 65 \<and> calc_driver_risk 0 0 0 40 = 1
   \<and> (65 :: real) \<le> 70 \<and> calc_driver_risk 0 0 10 70 = 1.101"
proof -
  have a: "(23 :: real) < 25" and b: "(25 :: real) \<le> 40 \<and> (40 :: real) < 65"
    and c: "(65 :: real) \<le> 70"
    by simp_all
  have r1: "calc_driver_risk 5.5 0.015 5 23 = 1.260725"
    using calc_driver_risk_formula [of "5.5" "0.015" 5 23, THEN conjunct2, THEN conjunct2, THEN conjunct1,
        THEN mp, OF a]
    by simp
  have r2: "calc_driver_risk 0 0 0 40 = 1"
    using calc_driver_risk_formula [of 0 0 0 40, THEN conjunct2, THEN conjunct2, THEN conjunct2, THEN conjunct1,
        THEN mp, OF b]
    by simp
  have r3: "calc_driver_risk 0 0 10 70 = 1.101"
    using calc_driver_risk_formula [of 0 0 10 70, THEN conjunct2, THEN conjunct2, THEN conjunct2, THEN conjunct2,
        THEN conjunct1, THEN mp, OF c]
    by simp
  show ?thesis using a b c r1 r2 r3 by blast
qed

subsection \<open>Accident points\<close>

text \<open>
  Claim C8. For non-negative counts \<open>calc_accident_points\<close> is non-negative, and
  raising any one of the five counts with the other four fixed does not lower it.
\<close>

theorem calc_accident_points_nonneg_mono:
  "0 \<le> major \<Longrightarrow> 0 \<le> minor \<Longrightarrow> 0 \<le> nf \<Longrightarrow> 0 \<le> hr \<Longrightarrow> 0 \<le> du \<Longrightarrow>
     0 \<le> calc_accident_points major minor nf hr du
     \<and> (\<forall>major'. major \<le> major' \<longrightarrow>
           calc_accident_points major minor nf hr du \<le> calc_accident_points major' minor nf hr du)
     \<and> (\<forall>minor'. minor \<le> minor' \<longrightarrow>
           calc_accident_points major minor nf hr du \<le> calc_accident_points major minor' nf hr du)
     \<and> (\<forall>nf'. nf \<le> nf' \<longrightarrow>
           calc_accident_points major minor nf hr du \<le> calc_accident_points major minor nf' hr du)
     \<and> (\<forall>hr'. hr \<le> hr' \<longrightarrow>
           calc_accident_points major minor nf hr du \<le> calc_accident_points major minor nf hr' du)
     \<and> (\<forall>du'. du \<le> du' \<longrightarrow>
           calc_accident_points major minor nf hr du \<le> calc_accident_points major minor nf hr du')"
  by (simp add: calc_accident_points_def)


theorem calc_accident_points_nonneg_mono_witness:
  "(0 :: real) \<le> 1 \<and> (0 :: real) \<le> 2 \<and> (0 :: real) \<le> 0
   \<and> 0 \<le> calc_accident_points 1 1 2 0 0
   \<and> ((1 :: real) \<le> 2 \<and> calc_accident_points 1 1 2 0 0 \<le> calc_accident_points 2 1 2 0 0)
   \<and> ((1 :: real) \<le> 3 \<and> calc_accident_points 1 1 2 0 0 \<le> calc_accident_points 1 3 2 0 0)
   \<and> ((2 :: real) \<le> 2 \<and> calc_accident_points 1 1 2 0 0 \<le> calc_accident_points 1 1 2 0 0)
   \<and> ((0 :: real) \<le> 1 \<and> calc_accident_points 1 1 2 0 0 \<le> calc_accident_points 1 1 2 1 0)
   \<and> ((0 :: real) \<le> 4 \<and> calc_accident_points 1 1 2 0 0 \<le> calc_accident_points 1 1 2 0 4)"
proof -
  have h1: "(0 :: real) \<le> 1" and h2: "(0 :: real) \<le> 2" and h0: "(0 :: real) \<le> 0"
    by simp_all
  note t = calc_accident_points_nonneg_mono [OF h1 h1 h2 h0 h0]
  have m1: "calc_accident_points 1 1 2 0 0 \<le> calc_accident_points 2 1 2 0 0"
    using t [THEN conjunct2, THEN conjunct1, THEN spec, of 2] by simp
  have m2: "calc_accident_points 1 1 2 0 0 \<le> calc_accident_points 1 3 2 0 0"
    using t [THEN conjunct2, THEN conjunct2, THEN conjunct1, THEN spec, of 3] by simp
  have m3: "calc_accident_points 1 1 2 0 0 \<le> calc_accident_points 1 1 2 0 0"
    using t [THEN conjunct2, THEN conjunct2, THEN conjunct2, THEN conjunct1, THEN spec, of 2]
    by simp
  have m4: "calc_accident_points 1 1 2 0 0 \<le> calc_accident_points 1 1 2 1 0"
    using t [THEN conjunct2, THEN conjunct2, THEN conjunct2, THEN conjunct2, THEN conjunct1,
        THEN spec, of 1]
    by simp
  have m5: "calc_accident_points 1 1 2 0 0 \<le> calc_accident_points 1 1 2 0 4"
    using t [THEN conjunct2, THEN conjunct2, THEN conjunct2, THEN conjunct2, THEN conjunct2,
        THEN spec, of 4]
    by simp
  show ?thesis using h1 h2 h0 t [THEN conjunct1] m1 m2 m3 m4 m5 by simp
qed

subsection \<open>The logger is only written\<close>

text \<open>
  Every function that logs appends its records to the logger it is given; what it
  returns and what it appends do not depend on the records already there.
\<close>

lemma check_value_logger: "check_value fp v lg = lg @ check_value fp v []"
  by (cases v) (simp_all add: emit_def)

lemma check_attrs_logger: "check_attrs path attrs lg = lg @ check_attrs path attrs []"
proof (induction attrs arbitrary: lg)
  case Nil
  then show ?case by simp
next
  case (Cons item attrs)
  obtain attr v where item: "item = (attr, v)" by (cases item)
  define fp where "fp = (if path \<noteq> [] then path @ ''.'' @ attr else attr)"
  have a: "check_attrs path (item # attrs) lg = check_attrs path attrs (check_value fp v lg)"
    by (simp add: item fp_def)
  have b: "check_attrs path (item # attrs) [] = check_attrs path attrs (check_value fp v [])"
    by (simp add: item fp_def)
  have c: "check_attrs path attrs (check_value fp v lg)
             = check_value fp v lg @ check_attrs path attrs []"
    by (rule Cons.IH)
  have d: "check_attrs path attrs (check_value fp v [])
             = check_value fp v [] @ check_attrs path attrs []"
    by (rule Cons.IH)
  have e: "check_value fp v lg = lg @ check_value fp v []"
    by (rule check_value_logger)
  show ?case
    unfolding a b c d by (subst e) simp
qed

lemma check_defaults_logger: "\<exists>es. \<forall>lg. check_defaults obj path lg = lg @ es"
proof (cases obj)
  case None
  then have "\<forall>lg. check_defaults obj path lg = lg @ [DefaultsObjIsNone]"
    by (simp add: check_defaults_def emit_def)
  then show ?thesis ..
next
  case (Some attrs)
  have "check_defaults obj path lg = lg @ check_attrs path attrs []" for lg
    unfolding check_defaults_def Some option.case by (rule check_attrs_logger)
  then show ?thesis by blast
qed

lemma calc_policy_adjustment_logger:
  "\<exists>v es. \<forall>lg. calc_policy_adjustment pt rq lg = (v, lg @ es)"
proof (cases "dict_get POLICY_ADD_ON_MAP pt")
  case None
  then have "\<forall>lg. calc_policy_adjustment pt rq lg = (Inl TypeError, lg @ [])"
    by (simp add: calc_policy_adjustment_def)
  then show ?thesis by blast
next
  case (Some policy_obj)
  show ?thesis
  proof (cases "weight policy_obj = - 1")
    case True
    then have "\<forall>lg. calc_policy_adjustment pt rq lg = (Inr (- 1), lg @ [PolicyWeightInvalidKey])"
      using Some by (simp add: calc_policy_adjustment_def emit_def)
    then show ?thesis by blast
  next
    case False
    obtain adj exc where l:
      "(case rq of None \<Rightarrow> (0, Some TypeError)
         | Some keys \<Rightarrow> add_ons_loop (add_ons_map policy_obj) keys 0) = (adj, exc)"
      by (cases "(case rq of None \<Rightarrow> (0::real, Some TypeError)
         | Some keys \<Rightarrow> add_ons_loop (add_ons_map policy_obj) keys 0)")
    have "\<forall>lg. calc_policy_adjustment pt rq lg =
            (Inr (weight policy_obj + adj),
             lg @ (case exc of None \<Rightarrow> [] | Some e \<Rightarrow> [PolicyAdjustmentFailed e]))"
      using Some False l by (cases exc) (simp_all add: calc_policy_adjustment_def emit_def)
    then show ?thesis by blast
  qed
qed

lemma calc_discounts_logger:
  "\<exists>v es. \<forall>lg. calc_discounts pt rq lg = (Inr v, lg @ es)"
proof (cases "dict_get POLICY_DISCOUNT_MAP pt")
  case None
  then have "\<forall>lg. calc_discounts pt rq lg = (Inr 0, lg @ [DiscountInvalidPolicyType pt])"
    by (simp add: calc_discounts_def emit_def)
  then show ?thesis by blast
next
  case (Some discount_obj)
  show ?thesis
  proof (cases rq)
    case None
    then have "\<forall>lg. calc_discounts pt rq lg = (Inr 0, lg @ [DiscountsFailed TypeError])"
      using Some by (simp add: calc_discounts_def emit_def)
    then show ?thesis by blast
  next
    case (Some keys)
    have "\<forall>lg. calc_discounts pt rq lg = (Inr (sum_recognized discount_obj keys),
        lg @ map (\<lambda>k. DiscountKeyNotFound k pt) (filter (\<lambda>k. map_of discount_obj k = None) keys))"
      using calc_discounts_present [OF \<open>dict_get POLICY_DISCOUNT_MAP pt = Some discount_obj\<close>]
        Some by simp
    then show ?thesis by blast
  qed
qed

lemma calculate_quote_logger:
  "\<exists>v es. \<forall>lg. calculate_quote req lg = (v, lg @ es)"
proof -
  obtain w1 where w1: "\<And>lg. check_defaults (map_option vars_DriverInputs (driver_inputs req))
      ''driver_inputs'' lg = lg @ w1"
    using check_defaults_logger by blast
  obtain w2 where w2: "\<And>lg. check_defaults (map_option vars_VehicleInputs (vehicle_inputs req))
      ''vehicle_inputs'' lg = lg @ w2"
    using check_defaults_logger by blast
  obtain w3 where w3: "\<And>lg. check_defaults (map_option vars_LocationInputs (location_inputs req))
      ''location_inputs'' lg = lg @ w3"
    using check_defaults_logger by blast
  obtain w4 where w4: "\<And>lg. check_defaults (map_option vars_PolicyInputs (policy_inputs req))
      ''policy_inputs'' lg = lg @ w4"
    using check_defaults_logger by blast
  note w = w1 w2 w3 w4
  show ?thesis
  proof (cases "driver_inputs req")
    case None
    then have "\<forall>lg. calculate_quote req lg = (Inl AttributeError, lg @ (w1 @ w2 @ w3 @ w4))"
      unfolding calculate_quote_def Let_def w by simp
    then show ?thesis by blast
  next
    case d: (Some d)
    show ?thesis
    proof (cases "location_inputs req")
      case None
      then have "\<forall>lg. calculate_quote req lg = (Inl AttributeError, lg @ (w1 @ w2 @ w3 @ w4))"
        unfolding calculate_quote_def Let_def w using d by simp
      then show ?thesis by blast
    next
      case l: (Some l)
      show ?thesis
      proof (cases "vehicle_inputs req")
        case None
        then have "\<forall>lg. calculate_quote req lg = (Inl AttributeError, lg @ (w1 @ w2 @ w3 @ w4))"
          unfolding calculate_quote_def Let_def w using d l by simp
        then show ?thesis by blast
      next
        case v: (Some v)
        show ?thesis
        proof (cases "policy_inputs req")
          case None
          then have "\<forall>lg. calculate_quote req lg = (Inl AttributeError, lg @ (w1 @ w2 @ w3 @ w4))"
            unfolding calculate_quote_def Let_def w using d l v by simp
          then show ?thesis by blast
        next
          case p: (Some p)
          obtain pa e5 where pa:
            "\<And>lg. calc_policy_adjustment (coverage_type p) (add_ons p) lg = (pa, lg @ e5)"
            using calc_policy_adjustment_logger by blast
          show ?thesis
          proof (cases pa)
            case (Inl e)
            then have "\<forall>lg. calculate_quote req lg = (Inl e, lg @ (w1 @ w2 @ w3 @ w4 @ e5))"
              unfolding calculate_quote_def Let_def w using d l v p by (simp add: pa)
            then show ?thesis by blast
          next
            case (Inr x)
            show ?thesis
            proof (cases "discount_inputs req")
              case None
              then have "\<forall>lg. calculate_quote req lg
                  = (Inl AttributeError, lg @ (w1 @ w2 @ w3 @ w4 @ e5))"
                unfolding calculate_quote_def Let_def w using d l v p Inr by (simp add: pa)
              then show ?thesis by blast
            next
              case ds: (Some ds)
              obtain dd e6 where dd:
                "\<And>lg. calc_discounts (coverage_type p) (discounts ds) lg = (Inr dd, lg @ e6)"
                using calc_discounts_logger by blast
              have "\<exists>r e7. \<forall>lg. calculate_quote req lg
                  = (Inr r, lg @ (w1 @ w2 @ w3 @ w4 @ e5 @ e6 @ e7))"
                unfolding calculate_quote_def Let_def w using d l v p Inr ds
                by (simp add: pa dd emit_def)
              then show ?thesis by blast
            qed
          qed
        qed
      qed
    qed
  qed
qed

lemma calc_policy_adjustment_fst:
  "calc_policy_adjustment pt rq lg = (v, lg') \<Longrightarrow> fst (calc_policy_adjustment pt rq lg'') = v"
  using calc_policy_adjustment_logger [of pt rq] by auto

lemma calc_discounts_fst:
  "calc_discounts pt rq lg = (v, lg') \<Longrightarrow> fst (calc_discounts pt rq lg'') = v"
  using calc_discounts_logger [of pt rq] by auto

subsection \<open>Determinism of the quote\<close>

text \<open>
  Claim C9. \<open>calculate_quote\<close> is deterministic. Its result (a quote or an exception)
  is a function of the request alone: the same for any two states of the logger, the
  only state the code has besides the constant tables; in particular a second call,
  made after the first one has logged, gives the same result as the first. The records a
  call logs are the same as well.
\<close>

theorem calculate_quote_deterministic:
  "fst (calculate_quote req lg) = fst (calculate_quote req lg')
   \<and> fst (calculate_quote req (snd (calculate_quote req lg))) = fst (calculate_quote req lg)
   \<and> snd (calculate_quote req lg) = lg @ snd (calculate_quote req [])"
proof -
  obtain v es where h: "\<And>lg. calculate_quote req lg = (v, lg @ es)"
    using calculate_quote_logger by blast
  show ?thesis by (simp add: h)
qed

subsection \<open>Composition of the quote and the reference request\<close>

lemma test_quote_checks:
  "check_defaults (map_option vars_DriverInputs (driver_inputs test_quote_inputs)) ''driver_inputs'' lg = lg"
  "check_defaults (map_option vars_VehicleInputs (vehicle_inputs test_quote_inputs)) ''vehicle_inputs'' lg = lg"
  "check_defaults (map_option vars_LocationInputs (location_inputs test_quote_inputs)) ''location_inputs'' lg = lg"
  "check_defaults (map_option vars_PolicyInputs (policy_inputs test_quote_inputs)) ''policy_inputs'' lg = lg"
  by (simp_all add: test_quote_inputs_def check_defaults_def vars_DriverInputs_def
      vars_VehicleInputs_def vars_LocationInputs_def vars_PolicyInputs_def py_isspace_def
      key_defs)

lemma test_quote_policy:
  "calc_policy_adjustment (Some CoverageType_FULL_COVERAGE)
     (Some [AddOnKeys_ROADSIDE_ASSISTANCE, AddOnKeys_RENTAL_REIMBURSEMENT]) lg = (Inr 1.75, lg)"
  by (simp add: calc_policy_adjustment_def dict_get_def POLICY_ADD_ON_MAP_def key_defs
        weight_defs)

lemma test_quote_discounts:
  "calc_discounts (Some CoverageType_FULL_COVERAGE) (Some (get_discounts True True False True)) lg
     = (Inr 0.25, lg)"
  by (simp add: calc_discounts_def dict_get_def POLICY_DISCOUNT_MAP_def key_defs
        weight_defs get_discounts_def)

lemma test_quote_eval:
  "calculate_quote test_quote_inputs lg =
    (Inr \<lparr>base_rate = 320,
          original_quote = 320 * 1.260725 * 1.0966 * 1.16 * 1.75,
          total_discount = 320 * 1.260725 * 1.0966 * 1.16 * 1.75 * 0.25,
          quote = 320 * 1.260725 * 1.0966 * 1.16 * 1.75 * 0.75,
          weights = \<lparr>driver_risk = 1.260725, vehicle_risk = 1.0966, location_risk = 1.16,
                      policy_adjustment = 1.75, discount = 0.25\<rparr>,
          scores = \<lparr>repair_score = 16.5, theft_score = 4.16, safety_score = 11\<rparr>\<rparr>,
     lg @ [QuoteFactors 320 1.260725 1.0966 1.16 1.75 0.25,
           QuoteTotals 673.559376252 224.519792084])"
  unfolding calculate_quote_def Let_def test_quote_checks
  by (simp add: test_quote_inputs_def test_quote_policy test_quote_discounts emit_def
      calc_base_rate_def calc_accident_points_def calc_violation_points_def
      calc_driver_risk_def calc_crime_score_def calc_location_risk_def calc_repair_score_def
      calc_theft_score_def calc_saftey_score_def calc_vehicle_risk_def)

lemma calculate_quote_Inr_D:
  assumes "calculate_quote req lg = (Inr r, lg')"
  shows "\<exists>d v l p ds.
      driver_inputs req = Some d \<and> vehicle_inputs req = Some v \<and> location_inputs req = Some l
    \<and> policy_inputs req = Some p \<and> discount_inputs req = Some ds
    \<and> fst (calc_policy_adjustment (coverage_type p) (add_ons p) []) = Inr (policy_adjustment (weights r))
    \<and> fst (calc_discounts (coverage_type p) (discounts ds) []) = Inr (discount (weights r))
    \<and> base_rate r = 320
    \<and> driver_risk (weights r) =
        calc_driver_risk
          (calc_accident_points (of_int (at_fault_major d)) (of_int (at_fault_minor d))
             (of_int (no_fault d)) (of_int (hit_n_runs d)) (of_int (duis d)))
          (calc_violation_points (of_int (violations d)))
          (of_int (years_clean d)) (of_int (age d))
    \<and> location_risk (weights r) =
        calc_location_risk
          (calc_accident_points (of_int (at_fault_major d)) (of_int (at_fault_minor d))
             (of_int (no_fault d)) (of_int (hit_n_runs d)) (of_int (duis d)))
          (calc_crime_score (of_int (crime_level_factor l)) (of_int (anti_theft_adjustment l)))
    \<and> repair_score (scores r) =
        calc_repair_score (of_int (brand_type_score v)) (of_int (repair_complexity_score v))
          (of_int (parts_score v)) (of_int (vehicle_age v))
    \<and> theft_score (scores r) =
        calc_theft_score (of_int (VehicleInputs.theft_score v)) (location_risk (weights r))
          (of_int (anti_theft_feature_score v))
    \<and> safety_score (scores r) =
        calc_saftey_score (of_int (crash_test_rating v)) (of_int (active_safety_features v))
          (of_int (passive_safety_features v))
    \<and> vehicle_risk (weights r) =
        calc_vehicle_risk (repair_score (scores r)) (theft_score (scores r))
          (safety_score (scores r))
    \<and> original_quote r = 320 * driver_risk (weights r) * vehicle_risk (weights r)
          * location_risk (weights r) * policy_adjustment (weights r)
    \<and> total_discount r = original_quote r * discount (weights r)
    \<and> quote r = original_quote r - total_discount r"
  using assms
  by (auto simp: calculate_quote_def Let_def calc_base_rate_def
      split: option.splits sum.splits prod.splits
      dest: calc_policy_adjustment_fst [where lg'' = "[]"] calc_discounts_fst [where lg'' = "[]"])

lemma calculate_quote_returns:
  assumes d: "driver_inputs req = Some d" and v: "vehicle_inputs req = Some v"
    and l: "location_inputs req = Some l" and p: "policy_inputs req = Some p"
    and ds: "discount_inputs req = Some ds"
    and t: "dict_get POLICY_ADD_ON_MAP (coverage_type p) = Some policy_obj"
  shows "\<exists>r lg'. calculate_quote req lg = (Inr r, lg')"
proof -
  obtain pa e5 where pa:
    "\<And>lg. calc_policy_adjustment (coverage_type p) (add_ons p) lg = (pa, lg @ e5)"
    using calc_policy_adjustment_logger by blast
  obtain x where x: "pa = Inr x"
    using calc_policy_adjustment_present [OF t, of "add_ons p" "[]"] pa [of "[]"] by auto
  obtain dd e6 where dd:
    "\<And>lg. calc_discounts (coverage_type p) (discounts ds) lg = (Inr dd, lg @ e6)"
    using calc_discounts_logger by blast
  show ?thesis
    unfolding calculate_quote_def Let_def using d v l p ds
    by (simp add: pa x dd)
qed

text \<open>
  Claim C3. \<open>calculate_quote\<close> returns a result for every request that has all
  five profiles and a coverage type of the policy table. Whenever it returns a result,
  all five profiles are present, the factors in the result are those the scorers,
  aggregators and resolvers give on the request (the theft score taking the location
  risk), and
  gross quote = 320 * driver risk * vehicle risk * location risk * policy adjustment,
  discount amount = gross quote * discount fraction, net quote = gross quote - discount
  amount. On the reference request of \<^verbatim>\<open>src/test.py\<close> the intermediate values are
  accident points 5.5, violation points 0.015, crime score 2, location risk 1.16, repair
  score 16.5, theft score 4.16, safety score 11, vehicle risk 1.0966, driver risk
  1.260725 (within 0.0001 of 1.2607), policy adjustment 1.75, discount fraction 0.25, and
  the call returns gross = 320 * 1.260725 * 1.0966 * 1.16 * 1.75 and net = gross * 0.75.
\<close>

theorem calculate_quote_composition:
  "(calculate_quote req lg = (Inr r, lg') \<longrightarrow>
      (\<exists>d v l p ds.
          driver_inputs req = Some d \<and> vehicle_inputs req = Some v
        \<and> location_inputs req = Some l \<and> policy_inputs req = Some p
        \<and> discount_inputs req = Some ds
        \<and> driver_risk (weights r) =
            calc_driver_risk
              (calc_accident_points (of_int (at_fault_major d)) (of_int (at_fault_minor d))
                 (of_int (no_fault d)) (of_int (hit_n_runs d)) (of_int (duis d)))
              (calc_violation_points (of_int (violations d)))
              (of_int (years_clean d)) (of_int (age d))
        \<and> location_risk (weights r) =
            calc_location_risk
              (calc_accident_points (of_int (at_fault_major d)) (of_int (at_fault_minor d))
                 (of_int (no_fault d)) (of_int (hit_n_runs d)) (of_int (duis d)))
              (calc_crime_score (of_int (crime_level_factor l))
                 (of_int (anti_theft_adjustment l)))
        \<and> repair_score (scores r) =
            calc_repair_score (of_int (brand_type_score v))
              (of_int (repair_complexity_score v)) (of_int (parts_score v))
              (of_int (vehicle_age v))
        \<and> theft_score (scores r) =
            calc_theft_score (of_int (VehicleInputs.theft_score v))
              (location_risk (weights r)) (of_int (anti_theft_feature_score v))
        \<and> safety_score (scores r) =
            calc_saftey_score (of_int (crash_test_rating v))
              (of_int (active_safety_features v)) (of_int (passive_safety_features v))
        \<and> vehicle_risk (weights r) =
            calc_vehicle_risk (repair_score (scores r)) (theft_score (scores r))
              (safety_score (scores r))
        \<and> (\<forall>lg0. fst (calc_policy_adjustment (coverage_type p) (add_ons p) lg0)
              = Inr (policy_adjustment (weights r)))
        \<and> (\<forall>lg0. fst (calc_discounts (coverage_type p) (discounts ds) lg0)
              = Inr (discount (weights r))))
      \<and> base_rate r = 320
      \<and> original_quote r =
          320 * driver_risk (weights r) * vehicle_risk (weights r)
            * location_risk (weights r) * policy_adjustment (weights r)
      \<and> total_discount r = original_quote r * discount (weights r)
      \<and> quote r = original_quote r - total_discount r)
   \<and> calc_accident_points 1 1 2 0 0 = 5.5
   \<and> calc_violation_points 1 = 0.015
   \<and> calc_crime_score 4 2 = 2
   \<and> calc_location_risk 5.5 2 = 1.16
   \<and> calc_repair_score 3 2 4 15 = 16.5
   \<and> calc_theft_score 5 1.16 2 = 4.16
   \<and> calc_saftey_score 4 2 3 = 11
   \<and> calc_vehicle_risk 16.5 4.16 11 = 1.0966
   \<and> calc_driver_risk 5.5 0.015 5 23 = 1.260725
   \<and> \<bar>calc_driver_risk 5.5 0.015 5 23 - 1.2607\<bar> < 0.0001
   \<and> calculate_quote test_quote_inputs lg =
       (Inr \<lparr>base_rate = 320,
             original_quote = 320 * 1.260725 * 1.0966 * 1.16 * 1.75,
             total_discount = 320 * 1.260725 * 1.0966 * 1.16 * 1.75 * 0.25,
             quote = 320 * 1.260725 * 1.0966 * 1.16 * 1.75 * 0.75,
             weights = \<lparr>driver_risk = 1.260725, vehicle_risk = 1.0966, location_risk = 1.16,
                         policy_adjustment = 1.75, discount = 0.25\<rparr>,
             scores = \<lparr>repair_score = 16.5, theft_score = 4.16, safety_score = 11\<rparr>\<rparr>,
        lg @ [QuoteFactors 320 1.260725 1.0966 1.16 1.75 0.25,
              QuoteTotals 673.559376252 224.519792084])
   \<and> (driver_inputs req \<noteq> None \<and> vehicle_inputs req \<noteq> None
        \<and> location_inputs req \<noteq> None \<and> discount_inputs req \<noteq> None
        \<and> (\<exists>p. policy_inputs req = Some p
               \<and> dict_get POLICY_ADD_ON_MAP (coverage_type p) \<noteq> None)
        \<longrightarrow> (\<exists>r0 lg0. calculate_quote req lg = (Inr r0, lg0)))"
proof (intro conjI impI)
  assume h: "calculate_quote req lg = (Inr r, lg')"
  from calculate_quote_Inr_D [OF h] obtain d v l p ds where D:
    "driver_inputs req = Some d" "vehicle_inputs req = Some v" "location_inputs req = Some l"
    "policy_inputs req = Some p" "discount_inputs req = Some ds"
    "fst (calc_policy_adjustment (coverage_type p) (add_ons p) [])
       = Inr (policy_adjustment (weights r))"
    "fst (calc_discounts (coverage_type p) (discounts ds) []) = Inr (discount (weights r))"
    "driver_risk (weights r) =
        calc_driver_risk
          (calc_accident_points (of_int (at_fault_major d)) (of_int (at_fault_minor d))
             (of_int (no_fault d)) (of_int (hit_n_runs d)) (of_int (duis d)))
          (calc_violation_points (of_int (violations d)))
          (of_int (years_clean d)) (of_int (age d))"
    "location_risk (weights r) =
        calc_location_risk
          (calc_accident_points (of_int (at_fault_major d)) (of_int (at_fault_minor d))
             (of_int (no_fault d)) (of_int (hit_n_runs d)) (of_int (duis d)))
          (calc_crime_score (of_int (crime_level_factor l)) (of_int (anti_theft_adjustment l)))"
    "repair_score (scores r) =
        calc_repair_score (of_int (brand_type_score v)) (of_int (repair_complexity_score v))
          (of_int (parts_score v)) (of_int (vehicle_age v))"
    "theft_score (scores r) =
        calc_theft_score (of_int (VehicleInputs.theft_score v)) (location_risk (weights r))
          (of_int (anti_theft_feature_score v))"
    "safety_score (scores r) =
        calc_saftey_score (of_int (crash_test_rating v)) (of_int (active_safety_features v))
          (of_int (passive_safety_features v))"
    "vehicle_risk (weights r) =
        calc_vehicle_risk (repair_score (scores r)) (theft_score (scores r))
          (safety_score (scores r))"
    by blast
  have pa: "fst (calc_policy_adjustment (coverage_type p) (add_ons p) lg0)
              = Inr (policy_adjustment (weights r))" for lg0
    using D(6) calc_policy_adjustment_fst [OF surjective_pairing] by metis
  have dd: "fst (calc_discounts (coverage_type p) (discounts ds) lg0)
              = Inr (discount (weights r))" for lg0
    using D(7) calc_discounts_fst [OF surjective_pairing] by metis
  show "\<exists>d v l p ds.
          driver_inputs req = Some d \<and> vehicle_inputs req = Some v
        \<and> location_inputs req = Some l \<and> policy_inputs req = Some p
        \<and> discount_inputs req = Some ds
        \<and> driver_risk (weights r) =
            calc_driver_risk
              (calc_accident_points (of_int (at_fault_major d)) (of_int (at_fault_minor d))
                 (of_int (no_fault d)) (of_int (hit_n_runs d)) (of_int (duis d)))
              (calc_violation_points (of_int (violations d)))
              (of_int (years_clean d)) (of_int (age d))
        \<and> location_risk (weights r) =
            calc_location_risk
              (calc_accident_points (of_int (at_fault_major d)) (of_int (at_fault_minor d))
                 (of_int (no_fault d)) (of_int (hit_n_runs d)) (of_int (duis d)))
              (calc_crime_score (of_int (crime_level_factor l))
                 (of_int (anti_theft_adjustment l)))
        \<and> repair_score (scores r) =
            calc_repair_score (of_int (brand_type_score v))
              (of_int (repair_complexity_score v)) (of_int (parts_score v))
              (of_int (vehicle_age v))
        \<and> theft_score (scores r) =
            calc_theft_score (of_int (VehicleInputs.theft_score v))
              (location_risk (weights r)) (of_int (anti_theft_feature_score v))
        \<and> safety_score (scores r) =
            calc_saftey_score (of_int (crash_test_rating v))
              (of_int (active_safety_features v)) (of_int (passive_safety_features v))
        \<and> vehicle_risk (weights r) =
            calc_vehicle_risk (repair_score (scores r)) (theft_score (scores r))
              (safety_score (scores r))
        \<and> (\<forall>lg0. fst (calc_policy_adjustment (coverage_type p) (add_ons p) lg0)
              = Inr (policy_adjustment (weights r)))
        \<and> (\<forall>lg0. fst (calc_discounts (coverage_type p) (discounts ds) lg0)
              = Inr (discount (weights r)))"
    using D(1-5) D(8-13) pa dd by blast
  from calculate_quote_Inr_D [OF h]
  show "base_rate r = 320"
    and "original_quote r =
          320 * driver_risk (weights r) * vehicle_risk (weights r)
            * location_risk (weights r) * policy_adjustment (weights r)"
    and "total_discount r = original_quote r * discount (weights r)"
    and "quote r = original_quote r - total_discount r"
    by blast+
next
  show "calculate_quote test_quote_inputs lg =
       (Inr \<lparr>base_rate = 320,
             original_quote = 320 * 1.260725 * 1.0966 * 1.16 * 1.75,
             total_discount = 320 * 1.260725 * 1.0966 * 1.16 * 1.75 * 0.25,
             quote = 320 * 1.260725 * 1.0966 * 1.16 * 1.75 * 0.75,
             weights = \<lparr>driver_risk = 1.260725, vehicle_risk = 1.0966, location_risk = 1.16,
                         policy_adjustment = 1.75, discount = 0.25\<rparr>,
             scores = \<lparr>repair_score = 16.5, theft_score = 4.16, safety_score = 11\<rparr>\<rparr>,
        lg @ [QuoteFactors 320 1.260725 1.0966 1.16 1.75 0.25,
              QuoteTotals 673.559376252 224.519792084])"
    by (rule test_quote_eval)
next
  assume w: "driver_inputs req \<noteq> None \<and> vehicle_inputs req \<noteq> None
        \<and> location_inputs req \<noteq> None \<and> discount_inputs req \<noteq> None
        \<and> (\<exists>p. policy_inputs req = Some p
               \<and> dict_get POLICY_ADD_ON_MAP (coverage_type p) \<noteq> None)"
  then obtain d v l ds p policy_obj where
    "driver_inputs req = Some d" "vehicle_inputs req = Some v" "location_inputs req = Some l"
    "policy_inputs req = Some p" "discount_inputs req = Some ds"
    "dict_get POLICY_ADD_ON_MAP (coverage_type p) = Some policy_obj"
    by auto
  then show "\<exists>r0 lg0. calculate_quote req lg = (Inr r0, lg0)"
    by (rule calculate_quote_returns)
qed (simp_all add: calc_accident_points_def calc_violation_points_def calc_crime_score_def
      calc_location_risk_def calc_repair_score_def calc_theft_score_def calc_saftey_score_def
      calc_vehicle_risk_def calc_driver_risk_def)

theorem calculate_quote_composition_witness:
  "calculate_quote test_quote_inputs []
     = (Inr
       \<lparr>base_rate = 320,
          original_quote = 898.079168336,
          total_discount = 224.519792084,
          quote = 673.559376252,
          weights = \<lparr>driver_risk = 1.260725, vehicle_risk = 1.0966, location_risk = 1.16,
                      policy_adjustment = 1.75, discount = 0.25\<rparr>,
          scores = \<lparr>repair_score = 16.5, theft_score = 4.16, safety_score = 11\<rparr>\<rparr>,
        [QuoteFactors 320 1.260725 1.0966 1.16 1.75 0.25, QuoteTotals 673.559376252 224.519792084])
   \<and> base_rate
       \<lparr>base_rate = 320,
          original_quote = 898.079168336,
          total_discount = 224.519792084,
          quote = 673.559376252,
          weights = \<lparr>driver_risk = 1.260725, vehicle_risk = 1.0966, location_risk = 1.16,
                      policy_adjustment = 1.75, discount = 0.25\<rparr>,
          scores = \<lparr>repair_score = 16.5, theft_score = 4.16, safety_score = 11\<rparr>\<rparr> = 320
   \<and> original_quote
       \<lparr>base_rate = 320,
          original_quote = 898.079168336,
          total_discount = 224.519792084,
          quote = 673.559376252,
          weights = \<lparr>driver_risk = 1.260725, vehicle_risk = 1.0966, location_risk = 1.16,
                      policy_adjustment = 1.75, discount = 0.25\<rparr>,
          scores = \<lparr>repair_score = 16.5, theft_score = 4.16, safety_score = 11\<rparr>\<rparr> = 320 * 1.260725 * 1.0966 * 1.16 * 1.75
   \<and> total_discount
       \<lparr>base_rate = 320,
          original_quote = 898.079168336,
          total_discount = 224.519792084,
          quote = 673.559376252,
          weights = \<lparr>driver_risk = 1.260725, vehicle_risk = 1.0966, location_risk = 1.16,
                      policy_adjustment = 1.75, discount = 0.25\<rparr>,
          scores = \<lparr>repair_score = 16.5, theft_score = 4.16, safety_score = 11\<rparr>\<rparr> = 898.079168336 * 0.25
   \<and> quote
       \<lparr>base_rate = 320,
          original_quote = 898.079168336,
          total_discount = 224.519792084,
          quote = 673.559376252,
          weights = \<lparr>driver_risk = 1.260725, vehicle_risk = 1.0966, location_risk = 1.16,
                      policy_adjustment = 1.75, discount = 0.25\<rparr>,
          scores = \<lparr>repair_score = 16.5, theft_score = 4.16, safety_score = 11\<rparr>\<rparr> = 898.079168336 - 224.519792084
   \<and> (driver_inputs
          (test_quote_inputs\<lparr>policy_inputs :=
            Some \<lparr>coverage_type = Some CoverageType_LIABILITY, add_ons = None\<rparr>,
          discount_inputs := Some \<lparr>discounts = None\<rparr>\<rparr>) \<noteq> None \<and> vehicle_inputs
          (test_quote_inputs\<lparr>policy_inputs :=
            Some \<lparr>coverage_type = Some CoverageType_LIABILITY, add_ons = None\<rparr>,
          discount_inputs := Some \<lparr>discounts = None\<rparr>\<rparr>) \<noteq> None
        \<and> location_inputs
          (test_quote_inputs\<lparr>policy_inputs :=
            Some \<lparr>coverage_type = Some CoverageType_LIABILITY, add_ons = None\<rparr>,
          discount_inputs := Some \<lparr>discounts = None\<rparr>\<rparr>) \<noteq> None
        \<and> discount_inputs
          (test_quote_inputs\<lparr>policy_inputs :=
            Some \<lparr>coverage_type = Some CoverageType_LIABILITY, add_ons = None\<rparr>,
          discount_inputs := Some \<lparr>discounts = None\<rparr>\<rparr>) \<noteq> None
        \<and> (\<exists>p. policy_inputs
          (test_quote_inputs\<lparr>policy_inputs :=
            Some \<lparr>coverage_type = Some CoverageType_LIABILITY, add_ons = None\<rparr>,
          discount_inputs := Some \<lparr>discounts = None\<rparr>\<rparr>) = Some p
               \<and> dict_get POLICY_ADD_ON_MAP (coverage_type p) \<noteq> None))
   \<and> (\<exists>r0 lg0. calculate_quote
          (test_quote_inputs\<lparr>policy_inputs :=
            Some \<lparr>coverage_type = Some CoverageType_LIABILITY, add_ons = None\<rparr>,
          discount_inputs := Some \<lparr>discounts = None\<rparr>\<rparr>) [] = (Inr r0, lg0))"
proof -
  have h: "calculate_quote test_quote_inputs []
     = (Inr
       \<lparr>base_rate = 320,
          original_quote = 898.079168336,
          total_discount = 224.519792084,
          quote = 673.559376252,
          weights = \<lparr>driver_risk = 1.260725, vehicle_risk = 1.0966, location_risk = 1.16,
                      policy_adjustment = 1.75, discount = 0.25\<rparr>,
          scores = \<lparr>repair_score = 16.5, theft_score = 4.16, safety_score = 11\<rparr>\<rparr>,
        [QuoteFactors 320 1.260725 1.0966 1.16 1.75 0.25, QuoteTotals 673.559376252 224.519792084])"
    using test_quote_eval [of "[]"] by simp
  note t = calculate_quote_composition [of test_quote_inputs "[]", THEN conjunct1,
      THEN mp, OF h]
  have "base_rate
       \<lparr>base_rate = 320,
          original_quote = 898.079168336,
          total_discount = 224.519792084,
          quote = 673.559376252,
          weights = \<lparr>driver_risk = 1.260725, vehicle_risk = 1.0966, location_risk = 1.16,
                      policy_adjustment = 1.75, discount = 0.25\<rparr>,
          scores = \<lparr>repair_score = 16.5, theft_score = 4.16, safety_score = 11\<rparr>\<rparr> = 320
     \<and> original_quote
       \<lparr>base_rate = 320,
          original_quote = 898.079168336,
          total_discount = 224.519792084,
          quote = 673.559376252,
          weights = \<lparr>driver_risk = 1.260725, vehicle_risk = 1.0966, location_risk = 1.16,
                      policy_adjustment = 1.75, discount = 0.25\<rparr>,
          scores = \<lparr>repair_score = 16.5, theft_score = 4.16, safety_score = 11\<rparr>\<rparr> = 320 * 1.260725 * 1.0966 * 1.16 * 1.75
     \<and> total_discount
       \<lparr>base_rate = 320,
          original_quote = 898.079168336,
          total_discount = 224.519792084,
          quote = 673.559376252,
          weights = \<lparr>driver_risk = 1.260725, vehicle_risk = 1.0966, location_risk = 1.16,
                      policy_adjustment = 1.75, discount = 0.25\<rparr>,
          scores = \<lparr>repair_score = 16.5, theft_score = 4.16, safety_score = 11\<rparr>\<rparr> = 898.079168336 * 0.25
     \<and> quote
       \<lparr>base_rate = 320,
          original_quote = 898.079168336,
          total_discount = 224.519792084,
          quote = 673.559376252,
          weights = \<lparr>driver_risk = 1.260725, vehicle_risk = 1.0966, location_risk = 1.16,
                      policy_adjustment = 1.75, discount = 0.25\<rparr>,
          scores = \<lparr>repair_score = 16.5, theft_score = 4.16, safety_score = 11\<rparr>\<rparr> = 898.079168336 - 224.519792084"
    using t by simp
  moreover have w: "driver_inputs
          (test_quote_inputs\<lparr>policy_inputs :=
            Some \<lparr>coverage_type = Some CoverageType_LIABILITY, add_ons = None\<rparr>,
          discount_inputs := Some \<lparr>discounts = None\<rparr>\<rparr>) \<noteq> None \<and> vehicle_inputs
          (test_quote_inputs\<lparr>policy_inputs :=
            Some \<lparr>coverage_type = Some CoverageType_LIABILITY, add_ons = None\<rparr>,
          discount_inputs := Some \<lparr>discounts = None\<rparr>\<rparr>) \<noteq> None
        \<and> location_inputs
          (test_quote_inputs\<lparr>policy_inputs :=
            Some \<lparr>coverage_type = Some CoverageType_LIABILITY, add_ons = None\<rparr>,
          discount_inputs := Some \<lparr>discounts = None\<rparr>\<rparr>) \<noteq> None
        \<and> discount_inputs
          (test_quote_inputs\<lparr>policy_inputs :=
            Some \<lparr>coverage_type = Some CoverageType_LIABILITY, add_ons = None\<rparr>,
          discount_inputs := Some \<lparr>discounts = None\<rparr>\<rparr>) \<noteq> None
        \<and> (\<exists>p. policy_inputs
          (test_quote_inputs\<lparr>policy_inputs :=
            Some \<lparr>coverage_type = Some CoverageType_LIABILITY, add_ons = None\<rparr>,
          discount_inputs := Some \<lparr>discounts = None\<rparr>\<rparr>) = Some p
               \<and> dict_get POLICY_ADD_ON_MAP (coverage_type p) \<noteq> None)"
    by (simp add: test_quote_inputs_def dict_get_def POLICY_ADD_ON_MAP_def key_defs)
  moreover have "\<exists>r0 lg0. calculate_quote
          (test_quote_inputs\<lparr>policy_inputs :=
            Some \<lparr>coverage_type = Some CoverageType_LIABILITY, add_ons = None\<rparr>,
          discount_inputs := Some \<lparr>discounts = None\<rparr>\<rparr>) [] = (Inr r0, lg0)"
    using calculate_quote_composition [of
          "test_quote_inputs\<lparr>policy_inputs :=
            Some \<lparr>coverage_type = Some CoverageType_LIABILITY, add_ons = None\<rparr>,
          discount_inputs := Some \<lparr>discounts = None\<rparr>\<rparr>" "[]",
        THEN conjunct2, THEN conjunct2, THEN conjunct2, THEN conjunct2, THEN conjunct2,
        THEN conjunct2, THEN conjunct2, THEN conjunct2, THEN conjunct2, THEN conjunct2,
        THEN conjunct2, THEN conjunct2, THEN mp, OF w] .
  ultimately show ?thesis using h by blast
qed

end
